theory Spec2Isabelle
  imports Complex_Main
begin

section \<open>Mean-variance Sharpe maximisation: the model\<close>

text \<open>
  The development embeds \<^verbatim>\<open>mean_variance_sharpe_maximization\<close> of
  \<^verbatim>\<open>src/mean_variance_optimization.py\<close>. Floating-point numbers are idealised as
  real numbers (no rounding), extended by the three non-finite values that numpy produces
  when it divides by zero. The convex solver behind \<^verbatim>\<open>prob.solve(solver=cp.ECOS)\<close> is
  not part of the repository: it is a parameter of the model, and what is assumed of it
  is said by the predicates \<open>sound_on\<close>, \<open>exact_on\<close> and \<open>scale_equivariant\<close> below. The
  operations of pandas, numpy and cvxpy that the function calls (\<^verbatim>\<open>mean\<close>, \<^verbatim>\<open>cov\<close>, the
  division of arrays, the atoms of the problem and the checks they make of their
  arguments, \<^verbatim>\<open>pd.Series\<close>) are written out as these libraries document them.
\<close>

subsection \<open>Numbers, frames and series\<close>

datatype npfloat = Num real | PosInf | NegInf | NaN

fun is_finite :: "npfloat \<Rightarrow> bool" where
  "is_finite (Num x) = True"
| "is_finite PosInf = False"
| "is_finite NegInf = False"
| "is_finite NaN = False"

fun real_of :: "npfloat \<Rightarrow> real" where
  "real_of (Num x) = x"
| "real_of PosInf = 0"
| "real_of NegInf = 0"
| "real_of NaN = 0"

text \<open>
  numpy's division of floats: a zero divisor gives \<open>nan\<close> for \<open>0 / 0\<close> and a signed
  infinity otherwise (with a warning, never an exception).
\<close>

definition true_divide :: "real \<Rightarrow> real \<Rightarrow> npfloat" where
  "true_divide x y =
     (if y \<noteq> 0 then Num (x / y)
      else if x = 0 then NaN
      else if 0 < x then PosInf else NegInf)"

text \<open>
  A \<^verbatim>\<open>pd.DataFrame\<close> of shape \<open>(T, n)\<close>: the column labels and the \<open>T\<close> rows. The
  entries are finite (the table holds no missing value), and every row of a frame has
  one entry per column (\<open>wf_frame\<close>).
\<close>

record dataframe =
  columns :: "string list"
  rows :: "real list list"

definition wf_frame :: "dataframe \<Rightarrow> bool" where
  "wf_frame df = list_all (\<lambda>r. length r = length (columns df)) (rows df)"

definition column :: "dataframe \<Rightarrow> nat \<Rightarrow> real list" where
  "column df j = map (\<lambda>r. r ! j) (rows df)"

record series =
  index :: "string list"
  data :: "npfloat list"

datatype exn = Raised string string

text \<open>
  \<^verbatim>\<open>pd.Series(values, index=...)\<close> refuses values whose length differs from the index
  (the message of pandas also quotes the two lengths).
\<close>

definition pd_Series :: "npfloat list \<Rightarrow> string list \<Rightarrow> exn + series" where
  "pd_Series vals idx =
     (if length vals = length idx then Inr \<lparr>index = idx, data = vals\<rparr>
      else Inl (Raised ''ValueError'' ''Length of values does not match length of index''))"

subsection \<open>Sample statistics: \<^verbatim>\<open>returns.mean()\<close> and \<^verbatim>\<open>returns.cov()\<close>\<close>

definition series_mean :: "real list \<Rightarrow> npfloat" where
  "series_mean xs = true_divide (sum_list xs) (real (length xs))"

definition df_mean :: "dataframe \<Rightarrow> npfloat list" where
  "df_mean df = map (\<lambda>j. series_mean (column df j)) [0..<length (columns df)]"

definition deviations :: "real list \<Rightarrow> real list" where
  "deviations xs = map (\<lambda>x. x - sum_list xs / real (length xs)) xs"

text \<open>
  The covariance with \<open>ddof = 1\<close>: the products of the deviations are summed and divided
  by \<open>T - 1\<close>, a divisor that is not positive being replaced by zero.
\<close>

definition sample_cov :: "real list \<Rightarrow> real list \<Rightarrow> npfloat" where
  "sample_cov xs ys =
     true_divide (sum_list (map2 (*) (deviations xs) (deviations ys)))
       (max (real (length xs) - 1) 0)"

definition df_cov :: "dataframe \<Rightarrow> npfloat list list" where
  "df_cov df =
     map (\<lambda>i. map (\<lambda>j. sample_cov (column df i) (column df j)) [0..<length (columns df)])
       [0..<length (columns df)]"

subsection \<open>The expressions the function builds, and what they mean\<close>

datatype expr =
    Variable nat
  | Scalar real
  | MatMul "npfloat list" expr
  | QuadForm expr "npfloat list list"
  | Sub expr expr

datatype constr = Equality expr expr | GreaterEq expr expr

datatype objective = Minimize expr

record problem =
  objective :: objective
  constraints :: "constr list"

datatype val = S real | V "real list"

definition dot :: "real list \<Rightarrow> real list \<Rightarrow> real" where
  "dot a b = sum_list (map2 (*) a b)"

definition matvec :: "real list list \<Rightarrow> real list \<Rightarrow> real list" where
  "matvec P v = map (\<lambda>row. dot row v) P"

definition quad_form :: "real list list \<Rightarrow> real list \<Rightarrow> real" where
  "quad_form P v = dot v (matvec P v)"

text \<open>
  The value of an expression at a point \<open>w\<close> of the variable. Only the shapes that the
  function builds have a value: a vector variable, scalars, a constant vector times the
  variable, a quadratic form of the variable, a difference of scalars. Data that is not
  finite has no value.
\<close>

fun eval :: "real list \<Rightarrow> expr \<Rightarrow> val option" where
  "eval w (Variable n) = (if length w = n then Some (V w) else None)"
| "eval w (Scalar c) = Some (S c)"
| "eval w (MatMul a e) =
     (case eval w e of
        Some (V v) \<Rightarrow>
          if length a = length v \<and> list_all is_finite a
          then Some (S (dot (map real_of a) v)) else None
      | _ \<Rightarrow> None)"
| "eval w (QuadForm e P) =
     (case eval w e of
        Some (V v) \<Rightarrow>
          if length P = length v
             \<and> list_all (\<lambda>row. length row = length v \<and> list_all is_finite row) P
          then Some (S (quad_form (map (map real_of) P) v)) else None
      | _ \<Rightarrow> None)"
| "eval w (Sub e1 e2) =
     (case (eval w e1, eval w e2) of
        (Some (S a), Some (S b)) \<Rightarrow> Some (S (a - b))
      | _ \<Rightarrow> None)"

fun holds :: "real list \<Rightarrow> constr \<Rightarrow> bool" where
  "holds w (Equality l r) =
     (case (eval w l, eval w r) of
        (Some (S a), Some (S b)) \<Rightarrow> a = b
      | _ \<Rightarrow> False)"
| "holds w (GreaterEq l r) =
     (case (eval w l, eval w r) of
        (Some (V v), Some (S b)) \<Rightarrow> list_all (\<lambda>x. b \<le> x) v
      | (Some (S a), Some (S b)) \<Rightarrow> b \<le> a
      | _ \<Rightarrow> False)"

definition feasible :: "problem \<Rightarrow> real list \<Rightarrow> bool" where
  "feasible p w = list_all (holds w) (constraints p)"

definition objective_value :: "problem \<Rightarrow> real list \<Rightarrow> real option" where
  "objective_value p w =
     (case objective p of
        Minimize e \<Rightarrow> (case eval w e of Some (S c) \<Rightarrow> Some c | _ \<Rightarrow> None))"

definition optimal :: "problem \<Rightarrow> real list \<Rightarrow> bool" where
  "optimal p w \<longleftrightarrow>
     feasible p w \<and>
     (\<exists>c. objective_value p w = Some c \<and>
          (\<forall>v c'. feasible p v \<and> objective_value p v = Some c' \<longrightarrow> c \<le> c'))"

subsection \<open>The solver\<close>

text \<open>
  The solver stands for the lines from \<^verbatim>\<open>cp.Problem(...)\<close> to \<^verbatim>\<open>w.value\<close>, the check
  of the problem's convexity that \<^verbatim>\<open>prob.solve\<close> makes included: it raises, or leaves the
  variable without a value (\<open>None\<close>), or gives it one.
\<close>

type_synonym solver = "problem \<Rightarrow> exn + real list option"

definition sound_on :: "solver \<Rightarrow> problem \<Rightarrow> bool" where
  "sound_on cvx p \<longleftrightarrow> (\<forall>w. cvx p = Inr (Some w) \<longrightarrow> optimal p w)"

definition exact_on :: "solver \<Rightarrow> problem \<Rightarrow> bool" where
  "exact_on cvx p \<longleftrightarrow>
     (case cvx p of
        Inl e \<Rightarrow> False
      | Inr None \<Rightarrow> (\<forall>w. \<not> feasible p w)
      | Inr (Some w) \<Rightarrow> optimal p w)"



subsection \<open>The function\<close>

text \<open>
  \<^verbatim>\<open>cp.Variable(n)\<close> refuses a dimension that is not positive.
\<close>

definition cp_Variable :: "nat \<Rightarrow> exn + expr" where
  "cp_Variable n =
     (if n = 0 then Inl (Raised ''ValueError'' ''Invalid dimensions (0,).'')
      else Inr (Variable n))"

text \<open>
  \<^verbatim>\<open>np.isclose(a, b)\<close> with the default tolerances: \<open>|a - b| \<le> 1e-8 + 1e-5 |b|\<close>; an
  infinity is close to itself only, \<open>nan\<close> to nothing.
\<close>

fun np_isclose :: "npfloat \<Rightarrow> npfloat \<Rightarrow> bool" where
  "np_isclose (Num a) (Num b) = (\<bar>a - b\<bar> \<le> 1 / 10 ^ 8 + 1 / 10 ^ 5 * \<bar>b\<bar>)"
| "np_isclose PosInf PosInf = True"
| "np_isclose NegInf NegInf = True"
| "np_isclose x y = False"

text \<open>
  The test of symmetry that cvxpy makes of a constant square matrix: a \<open>1 \<times> 1\<close> matrix
  passes as a scalar, any other is compared with its transpose by \<^verbatim>\<open>np.allclose\<close>.
\<close>

definition is_symmetric :: "npfloat list list \<Rightarrow> bool" where
  "is_symmetric P =
     (length P = 1 \<or>
      list_all (\<lambda>i. list_all (\<lambda>j. np_isclose (P ! i ! j) (P ! j ! i)) [0..<length P])
        [0..<length P])"

text \<open>
  \<^verbatim>\<open>cp.quad_form(w, P)\<close> for the variable \<open>w\<close> of length \<open>n\<close>: the matrix must be
  \<open>n \<times> n\<close>, and the atom refuses a matrix that is not symmetric.
\<close>

definition cp_quad_form :: "nat \<Rightarrow> npfloat list list \<Rightarrow> exn + expr" where
  "cp_quad_form n P =
     (if \<not> (length P = n \<and> list_all (\<lambda>row. length row = n) P)
      then Inl (Raised ''Exception'' ''Invalid dimensions for arguments.'')
      else if \<not> is_symmetric P
      then Inl (Raised ''ValueError'' ''Quadratic form matrices must be symmetric/Hermitian.'')
      else Inr (QuadForm (Variable n) P))"

text \<open>Lines 28 to 40: the variable, the objective, the constraints, the problem.\<close>

definition formulate :: "npfloat list \<Rightarrow> npfloat list list \<Rightarrow> real \<Rightarrow> exn + problem" where
  "formulate mu Sigm rf =
     (let n = length mu
      in case cp_Variable n of
           Inl e \<Rightarrow> Inl e
         | Inr w \<Rightarrow>
             (case cp_quad_form n Sigm of
                Inl e \<Rightarrow> Inl e
              | Inr q \<Rightarrow>
                  Inr \<lparr>objective = Minimize q,
                       constraints = [Equality (Sub (MatMul mu w) (Scalar rf)) (Scalar 1),
                                      GreaterEq w (Scalar 0)]\<rparr>))"

text \<open>The problem that these lines build when neither constructor refuses.\<close>

definition qp_problem :: "npfloat list \<Rightarrow> npfloat list list \<Rightarrow> real \<Rightarrow> problem" where
  "qp_problem mu Sigm rf =
     (let n = length mu;
          w = Variable n
      in \<lparr>objective = Minimize (QuadForm w Sigm),
          constraints = [Equality (Sub (MatMul mu w) (Scalar rf)) (Scalar 1),
                         GreaterEq w (Scalar 0)]\<rparr>)"

definition w_norm :: "real list \<Rightarrow> npfloat list" where
  "w_norm w_opt = map (\<lambda>x. true_divide x (sum_list w_opt)) w_opt"

definition portfolio_optimizer ::
  "solver \<Rightarrow> npfloat list \<Rightarrow> npfloat list list \<Rightarrow> real \<Rightarrow> string list \<Rightarrow> exn + series" where
  "portfolio_optimizer cvx mu Sigm rf cols =
     (case formulate mu Sigm rf of
        Inl e \<Rightarrow> Inl e
      | Inr prob \<Rightarrow>
          (case cvx prob of
             Inl e \<Rightarrow> Inl e
           | Inr None \<Rightarrow>
               Inl (Raised ''ValueError'' ''Optimization failed: no solution found.'')
           | Inr (Some w_opt) \<Rightarrow> pd_Series (w_norm w_opt) cols))"

definition mean_variance_sharpe_maximization :: "solver \<Rightarrow> dataframe \<Rightarrow> real \<Rightarrow> exn + series" where
  "mean_variance_sharpe_maximization cvx returns rf =
     (let mu = df_mean returns;
          Sigm = df_cov returns
      in portfolio_optimizer cvx mu Sigm rf (columns returns))"

subsection \<open>The specification's words\<close>

text \<open>
  The estimators as the specification words them: the arithmetic average of a column over
  all observations, and the sample covariance with the divisor \<open>T - 1\<close>.
\<close>

definition arithmetic_mean :: "dataframe \<Rightarrow> nat \<Rightarrow> real" where
  "arithmetic_mean df j =
     (\<Sum>t<length (rows df). rows df ! t ! j) / real (length (rows df))"

definition bessel_cov :: "dataframe \<Rightarrow> nat \<Rightarrow> nat \<Rightarrow> real" where
  "bessel_cov df i j =
     (\<Sum>t<length (rows df).
        (rows df ! t ! i - arithmetic_mean df i) * (rows df ! t ! j - arithmetic_mean df j))
     / (real (length (rows df)) - 1)"

definition mean_vector :: "dataframe \<Rightarrow> real list" where
  "mean_vector df = map (arithmetic_mean df) [0..<length (columns df)]"

definition covariance_matrix :: "dataframe \<Rightarrow> real list list" where
  "covariance_matrix df =
     map (\<lambda>i. map (bessel_cov df i) [0..<length (columns df)]) [0..<length (columns df)]"

text \<open>
  The quadratic program as the specification states it: minimise \<open>w\<^sup>T \<Sigma> w\<close> subject to
  \<open>\<mu>\<^sup>T w - rf = 1\<close> and \<open>w\<^sub>i \<ge> 0\<close> for all \<open>i\<close>.
\<close>

definition qp_feasible :: "real list \<Rightarrow> real \<Rightarrow> real list \<Rightarrow> bool" where
  "qp_feasible mu rf w \<longleftrightarrow>
     length w = length mu \<and> (\<Sum>i<length w. mu ! i * w ! i) - rf = 1
     \<and> (\<forall>i<length w. 0 \<le> w ! i)"

definition qp_variance :: "real list list \<Rightarrow> real list \<Rightarrow> real" where
  "qp_variance Sg w = (\<Sum>i<length w. \<Sum>j<length w. w ! i * Sg ! i ! j * w ! j)"

definition qp_solution :: "real list \<Rightarrow> real list list \<Rightarrow> real \<Rightarrow> real list \<Rightarrow> bool" where
  "qp_solution mu Sg rf w \<longleftrightarrow>
     qp_feasible mu rf w \<and>
     (\<forall>v. qp_feasible mu rf v \<longrightarrow> qp_variance Sg w \<le> qp_variance Sg v)"



subsection \<open>Example inputs\<close>

definition frame2 :: dataframe where
  "frame2 = \<lparr>columns = [''A'', ''B''], rows = [[3/100, 1/100], [1/100, 3/100]]\<rparr>"

definition frame_neg :: dataframe where
  "frame_neg = \<lparr>columns = [''A'', ''B''], rows = [[-3/100, -1/100], [-1/100, -3/100]]\<rparr>"

definition frame_single_row :: dataframe where
  "frame_single_row = \<lparr>columns = [''A'', ''B''], rows = [[3/100, 1/100]]\<rparr>"

definition frame_one_asset :: dataframe where
  "frame_one_asset = \<lparr>columns = [''A''], rows = [[1/100], [3/100]]\<rparr>"

text \<open>
  Solvers that answer with a fixed point, with no value, or with the optimal point when
  there is exactly one.
\<close>

definition const_solver :: "real list \<Rightarrow> solver" where
  "const_solver w p = Inr (Some w)"

definition no_value_solver :: solver where
  "no_value_solver p = Inr None"


section \<open>Auxiliary facts\<close>

subsection \<open>Vectors and the built problem\<close>

lemma true_divide_Num: "y \<noteq> 0 \<Longrightarrow> true_divide x y = Num (x / y)"
  by (simp add: true_divide_def)

lemma feasible_formulate:
  "feasible (qp_problem mu Sigm rf) w \<longleftrightarrow>
     length w = length mu \<and> list_all is_finite mu \<and>
     dot (map real_of mu) w - rf = 1 \<and> list_all (\<lambda>x. 0 \<le> x) w"
  by (auto simp: feasible_def qp_problem_def Let_def)

lemma objective_formulate:
  "objective_value (qp_problem mu Sigm rf) w =
     (if length w = length mu \<and> length Sigm = length w
         \<and> list_all (\<lambda>row. length row = length w \<and> list_all is_finite row) Sigm
      then Some (quad_form (map (map real_of) Sigm) w) else None)"
  by (auto simp: objective_value_def qp_problem_def Let_def)







lemma dot_zero_of_sum_zero:
  "list_all (\<lambda>x. 0 \<le> x) w \<Longrightarrow> sum_list w \<le> 0 \<Longrightarrow> dot a w = 0"
  unfolding dot_def
proof (induction w arbitrary: a)
  case Nil
  then show ?case by simp
next
  case (Cons x w)
  have nn: "0 \<le> sum_list w" using Cons.prems(1) by (simp add: sum_list_nonneg list_all_iff)
  have x0: "x = 0" and s0: "sum_list w \<le> 0" using Cons.prems nn by auto
  show ?case
  proof (cases a)
    case Nil
    then show ?thesis by simp
  next
    case (Cons y ys)
    then show ?thesis using Cons.IH[of ys] Cons.prems(1) x0 s0 by simp
  qed
qed

lemma sum_pos_of_dot_pos:
  "list_all (\<lambda>x. 0 \<le> x) w \<Longrightarrow> 0 < dot a w \<Longrightarrow> 0 < sum_list w"
  using dot_zero_of_sum_zero[of w a] by (cases "0 < sum_list w") auto

lemma w_norm_Num:
  "sum_list w \<noteq> 0 \<Longrightarrow> w_norm w = map (\<lambda>x. Num (x / sum_list w)) w"
  by (simp add: w_norm_def true_divide_def)

lemma sum_list_divide: "sum_list (map (\<lambda>x. x / c) w) = sum_list w / (c::real)"
  by (induction w) (auto simp: add_divide_distrib)

lemma dot_unit:
  "i < length a \<Longrightarrow> dot a ((replicate (length a) 0)[i := v]) = a ! i * v"
  unfolding dot_def
proof (induction a arbitrary: i)
  case Nil
  then show ?case by simp
next
  case (Cons x a)
  have z: "sum_list (map2 (*) a (replicate (length a) (0::real))) = 0"
    by (induction a) auto
  show ?case
  proof (cases i)
    case 0
    then show ?thesis using z by simp
  next
    case (Suc k)
    then show ?thesis using Cons.IH[of k] Cons.prems by simp
  qed
qed

subsection \<open>The sample statistics\<close>

lemma map2_map_map: "map2 h (map f xs) (map g xs) = map (\<lambda>x. h (f x) (g x)) xs"
  by (induction xs) auto

lemma sum_list_map_nth: "sum_list (map f xs) = (\<Sum>t<length xs. f (xs ! t))"
proof -
  have "sum_list (map f xs) = (\<Sum>t = 0..<length (map f xs). map f xs ! t)"
    by (rule sum_list_sum_nth)
  also have "\<dots> = (\<Sum>t<length xs. f (xs ! t))"
    by (simp add: atLeast0LessThan)
  finally show ?thesis .
qed

lemma length_column: "length (column df j) = length (rows df)"
  by (simp add: column_def)

lemma sum_column: "sum_list (column df j) = (\<Sum>t<length (rows df). rows df ! t ! j)"
  by (simp add: column_def sum_list_map_nth)

lemma series_mean_column:
  "rows df \<noteq> [] \<Longrightarrow> series_mean (column df j) = Num (arithmetic_mean df j)"
  by (simp add: series_mean_def true_divide_def length_column sum_column arithmetic_mean_def)

lemma deviations_column:
  "deviations (column df j) = map (\<lambda>r. r ! j - arithmetic_mean df j) (rows df)"
proof -
  have "deviations (column df j) = map (\<lambda>x. x - arithmetic_mean df j) (column df j)"
    by (simp add: deviations_def length_column sum_column arithmetic_mean_def)
  then show ?thesis by (simp add: column_def)
qed

lemma cross_sum_column:
  "sum_list (map2 (*) (deviations (column df i)) (deviations (column df j))) =
     (\<Sum>t<length (rows df).
        (rows df ! t ! i - arithmetic_mean df i) * (rows df ! t ! j - arithmetic_mean df j))"
  by (simp add: deviations_column map2_map_map sum_list_map_nth)

lemma sample_cov_column:
  "2 \<le> length (rows df) \<Longrightarrow>
     sample_cov (column df i) (column df j) = Num (bessel_cov df i j)"
  by (simp add: sample_cov_def cross_sum_column length_column true_divide_def bessel_cov_def)


lemma length_df_mean: "length (df_mean df) = length (columns df)"
  by (simp add: df_mean_def)

lemma length_df_cov: "length (df_cov df) = length (columns df)"
  by (simp add: df_cov_def)

lemma df_mean_nth:
  "j < length (columns df) \<Longrightarrow> df_mean df ! j = series_mean (column df j)"
  by (simp add: df_mean_def)

lemma df_cov_nth:
  "i < length (columns df) \<Longrightarrow>
     df_cov df ! i = map (\<lambda>j. sample_cov (column df i) (column df j)) [0..<length (columns df)]"
  by (simp add: df_cov_def)

lemma df_cov_nth_nth:
  "i < length (columns df) \<Longrightarrow> j < length (columns df) \<Longrightarrow>
     df_cov df ! i ! j = sample_cov (column df i) (column df j)"
  by (simp add: df_cov_nth)

lemma df_mean_finite:
  "rows df \<noteq> [] \<Longrightarrow> df_mean df = map Num (mean_vector df)"
  by (simp add: df_mean_def mean_vector_def series_mean_column)

lemma df_cov_finite:
  "2 \<le> length (rows df) \<Longrightarrow> df_cov df = map (map Num) (covariance_matrix df)"
  by (simp add: df_cov_def covariance_matrix_def sample_cov_column)

lemma bessel_cov_sym: "bessel_cov df i j = bessel_cov df j i"
  by (simp add: bessel_cov_def mult.commute)

lemma covariance_matrix_nth:
  "i < length (columns df) \<Longrightarrow> j < length (columns df) \<Longrightarrow>
     covariance_matrix df ! i ! j = bessel_cov df i j"
  by (simp add: covariance_matrix_def)

lemma length_covariance_matrix_row:
  "i < length (columns df) \<Longrightarrow> length (covariance_matrix df ! i) = length (columns df)"
  by (simp add: covariance_matrix_def)

text \<open>
  Claim C4. For a table of at least two observations, \<^verbatim>\<open>returns.mean()\<close> is, column by
  column, the arithmetic average over all \<open>T\<close> observations, and \<^verbatim>\<open>returns.cov()\<close> is
  the sample covariance with the divisor \<open>T - 1\<close>; the matrix is square of dimension \<open>n\<close>
  and symmetric.
\<close>

theorem return_statistics_estimator:
  assumes "2 \<le> length (rows df)"
  shows "df_mean df = map Num (mean_vector df)
       \<and> df_cov df = map (map Num) (covariance_matrix df)
       \<and> length (mean_vector df) = length (columns df)
       \<and> length (covariance_matrix df) = length (columns df)
       \<and> (\<forall>i<length (columns df).
             length (covariance_matrix df ! i) = length (columns df)
             \<and> (\<forall>j<length (columns df).
                   covariance_matrix df ! i ! j = covariance_matrix df ! j ! i))"
proof -
  have ne: "rows df \<noteq> []" using assms by auto
  have sym: "\<forall>i<length (columns df).
             length (covariance_matrix df ! i) = length (columns df)
             \<and> (\<forall>j<length (columns df).
                   covariance_matrix df ! i ! j = covariance_matrix df ! j ! i)"
    using bessel_cov_sym[of df] by (simp add: covariance_matrix_nth length_covariance_matrix_row)
  have len: "length (mean_vector df) = length (columns df)"
            "length (covariance_matrix df) = length (columns df)"
    by (simp_all add: mean_vector_def covariance_matrix_def)
  show ?thesis using df_mean_finite[OF ne] df_cov_finite[OF assms] len sym by blast
qed

lemma frame2_mean: "mean_vector frame2 = [1/50, 1/50]"
  by (simp add: mean_vector_def arithmetic_mean_def frame2_def lessThan_Suc numeral_2_eq_2)

lemma frame2_cov: "covariance_matrix frame2 = [[1/5000, - (1/5000)], [- (1/5000), 1/5000]]"
  by (simp add: covariance_matrix_def bessel_cov_def arithmetic_mean_def frame2_def lessThan_Suc numeral_2_eq_2)

theorem return_statistics_estimator_witness:
  "2 \<le> length (rows frame2)
   \<and> df_mean frame2 = [Num (1/50), Num (1/50)]
   \<and> df_cov frame2 = [[Num (1/5000), Num (- (1/5000))], [Num (- (1/5000)), Num (1/5000)]]
   \<and> covariance_matrix frame2 ! 0 ! 1 = covariance_matrix frame2 ! 1 ! 0"
proof -
  have T: "2 \<le> length (rows frame2)" by (simp add: frame2_def)
  have n: "length (columns frame2) = 2" by (simp add: frame2_def)
  from return_statistics_estimator[OF T] n
  show ?thesis using T by (simp add: frame2_mean frame2_cov)
qed

subsection \<open>The built problem is the stated program\<close>

lemma dot_sum_nth:
  "length a = length b \<Longrightarrow> dot a b = (\<Sum>i<length b. a ! i * b ! i)"
proof -
  assume len: "length a = length b"
  have "dot a b = (\<Sum>i = 0..<length (map2 (*) a b). map2 (*) a b ! i)"
    unfolding dot_def by (rule sum_list_sum_nth)
  also have "\<dots> = (\<Sum>i<length b. a ! i * b ! i)"
    using len by (simp add: atLeast0LessThan)
  finally show ?thesis .
qed

lemma quad_form_sum:
  assumes "length P = length v" and "\<forall>i<length v. length (P ! i) = length v"
  shows "quad_form P v = qp_variance P v"
proof -
  have "quad_form P v = (\<Sum>i<length v. v ! i * dot (P ! i) v)"
    using assms(1) by (simp add: quad_form_def dot_sum_nth matvec_def)
  also have "\<dots> = (\<Sum>i<length v. v ! i * (\<Sum>j<length v. P ! i ! j * v ! j))"
    using assms(2) by (simp add: dot_sum_nth)
  also have "\<dots> = qp_variance P v"
    by (simp add: qp_variance_def sum_distrib_left mult.assoc)
  finally show ?thesis .
qed

lemma map_real_of_Num: "map real_of (map Num m) = m"
  by (induction m) auto

lemma list_all_finite_Num: "list_all is_finite (map Num m)"
  by (induction m) auto

lemma feasible_formulate_spec:
  "feasible (qp_problem (map Num m) Sigm rf) w \<longleftrightarrow> qp_feasible m rf w"
proof -
  have "length w = length m \<Longrightarrow> dot m w = (\<Sum>i<length w. m ! i * w ! i)"
    by (simp add: dot_sum_nth)
  then show ?thesis
    by (auto simp: feasible_formulate qp_feasible_def comp_def list_all_finite_Num
        list_all_length)
qed

lemma objective_formulate_spec:
  assumes "length Sg = length m" and "\<forall>i<length m. length (Sg ! i) = length m"
    and "length w = length m"
  shows "objective_value (qp_problem (map Num m) (map (map Num) Sg) rf) w
         = Some (qp_variance Sg w)"
proof -
  have fin: "list_all (\<lambda>row. length row = length w \<and> list_all is_finite row) (map (map Num) Sg)"
    using assms by (simp add: list_all_length list_all_finite_Num)
  have "map (map real_of) (map (map Num) Sg) = Sg"
    by (induction Sg) (auto simp: comp_def)
  then show ?thesis
    using assms fin by (simp add: objective_formulate quad_form_sum)
qed

lemma optimal_formulate_spec:
  assumes "length Sg = length m" and "\<forall>i<length m. length (Sg ! i) = length m"
  shows "optimal (qp_problem (map Num m) (map (map Num) Sg) rf) w \<longleftrightarrow> qp_solution m Sg rf w"
proof
  assume opt: "optimal (qp_problem (map Num m) (map (map Num) Sg) rf) w"
  then have fw: "qp_feasible m rf w" by (simp add: optimal_def feasible_formulate_spec)
  then have lw: "length w = length m" by (simp add: qp_feasible_def)
  have "qp_variance Sg w \<le> qp_variance Sg v" if fv: "qp_feasible m rf v" for v
  proof -
    have lv: "length v = length m" using fv by (simp add: qp_feasible_def)
    show ?thesis
      using opt fv objective_formulate_spec[OF assms lw, of rf] objective_formulate_spec[OF assms lv, of rf]
      by (auto simp: optimal_def feasible_formulate_spec)
  qed
  with fw show "qp_solution m Sg rf w" by (simp add: qp_solution_def)
next
  assume sol: "qp_solution m Sg rf w"
  then have fw: "qp_feasible m rf w" by (simp add: qp_solution_def)
  then have lw: "length w = length m" by (simp add: qp_feasible_def)
  have "qp_variance Sg w \<le> c'"
    if "feasible (qp_problem (map Num m) (map (map Num) Sg) rf) v"
      and "objective_value (qp_problem (map Num m) (map (map Num) Sg) rf) v = Some c'" for v c'
  proof -
    have fv: "qp_feasible m rf v" using that(1) by (simp add: feasible_formulate_spec)
    then have lv: "length v = length m" by (simp add: qp_feasible_def)
    show ?thesis
      using sol fv that(2) objective_formulate_spec[OF assms lv, of rf] by (auto simp: qp_solution_def)
  qed
  then show "optimal (qp_problem (map Num m) (map (map Num) Sg) rf) w"
    using fw objective_formulate_spec[OF assms lw, of rf]
    by (auto simp: optimal_def feasible_formulate_spec)
qed

lemma formulate_unfold:
  "formulate mu Sigm rf =
     (if mu = [] then Inl (Raised ''ValueError'' ''Invalid dimensions (0,).'')
      else if \<not> (length Sigm = length mu \<and> list_all (\<lambda>row. length row = length mu) Sigm)
      then Inl (Raised ''Exception'' ''Invalid dimensions for arguments.'')
      else if \<not> is_symmetric Sigm
      then Inl (Raised ''ValueError'' ''Quadratic form matrices must be symmetric/Hermitian.'')
      else Inr (qp_problem mu Sigm rf))"
  by (simp add: formulate_def cp_Variable_def cp_quad_form_def qp_problem_def Let_def)

lemma formulate_Inr: "formulate mu Sigm rf = Inr p \<Longrightarrow> p = qp_problem mu Sigm rf"
  by (simp add: formulate_unfold split: if_splits)


lemma is_symmetric_df_cov:
  assumes "2 \<le> length (rows df)"
  shows "is_symmetric (df_cov df)"
proof -
  have "np_isclose (df_cov df ! i ! j) (df_cov df ! j ! i)"
    if "i < length (columns df)" and "j < length (columns df)" for i j
    using that assms bessel_cov_sym[of df i j]
    by (simp add: df_cov_nth_nth sample_cov_column)
  then show ?thesis
    by (simp add: is_symmetric_def list_all_iff length_df_cov)
qed

lemma square_df_cov:
  "length (df_cov df) = length (df_mean df)
   \<and> list_all (\<lambda>row. length row = length (df_mean df)) (df_cov df)"
  by (simp add: df_cov_def df_mean_def list_all_iff)

lemma formulate_returns:
  assumes "2 \<le> length (rows returns)" and "columns returns \<noteq> []"
  shows "formulate (df_mean returns) (df_cov returns) rf
         = Inr (qp_problem (df_mean returns) (df_cov returns) rf)"
proof -
  have "df_mean returns \<noteq> []" using assms(2) by (simp add: df_mean_def)
  then show ?thesis
    using square_df_cov[of returns] is_symmetric_df_cov[OF assms(1)]
    by (simp add: formulate_unfold)
qed

lemma portfolio_optimizer_built:
  assumes "formulate mu Sigm rf = Inr p"
  shows "portfolio_optimizer cvx mu Sigm rf cols =
     (case cvx p of
        Inl e \<Rightarrow> Inl e
      | Inr None \<Rightarrow> Inl (Raised ''ValueError'' ''Optimization failed: no solution found.'')
      | Inr (Some w_opt) \<Rightarrow> pd_Series (w_norm w_opt) cols)"
  using assms by (simp add: portfolio_optimizer_def)

lemma mvsm_optimizer:
  "mean_variance_sharpe_maximization cvx returns rf =
     portfolio_optimizer cvx (df_mean returns) (df_cov returns) rf (columns returns)"
  by (simp add: mean_variance_sharpe_maximization_def Let_def)

lemma mvsm_built:
  assumes "2 \<le> length (rows returns)" and "columns returns \<noteq> []"
  shows "mean_variance_sharpe_maximization cvx returns rf =
     (case cvx (qp_problem (df_mean returns) (df_cov returns) rf) of
        Inl e \<Rightarrow> Inl e
      | Inr None \<Rightarrow> Inl (Raised ''ValueError'' ''Optimization failed: no solution found.'')
      | Inr (Some w_opt) \<Rightarrow> pd_Series (w_norm w_opt) (columns returns))"
  by (simp add: mvsm_optimizer portfolio_optimizer_built[OF formulate_returns[OF assms]])

lemma optimal_returns_spec:
  assumes "2 \<le> length (rows returns)"
  shows "optimal (qp_problem (df_mean returns) (df_cov returns) rf) w
         \<longleftrightarrow> qp_solution (mean_vector returns) (covariance_matrix returns) rf w"
proof -
  have ne: "rows returns \<noteq> []" using assms by auto
  have l1: "length (covariance_matrix returns) = length (mean_vector returns)"
    by (simp add: covariance_matrix_def mean_vector_def)
  have l2: "\<forall>i<length (mean_vector returns).
              length (covariance_matrix returns ! i) = length (mean_vector returns)"
    by (simp add: covariance_matrix_def mean_vector_def)
  show ?thesis
    using optimal_formulate_spec[OF l1 l2] by (simp add: df_mean_finite[OF ne] df_cov_finite[OF assms])
qed

text \<open>
  Claim C1. For a table of at least two observations and at least one asset the problem
  is built, and the problem handed to the solver is exactly the stated quadratic program:
  its optimal points are the minimisers of \<open>w\<^sup>T \<Sigma> w\<close> subject to \<open>\<mu>\<^sup>T w - rf = 1\<close> and
  \<open>w\<^sub>i \<ge> 0\<close>, with \<open>\<mu>\<close> and \<open>\<Sigma>\<close> the mean vector and the covariance matrix of the input
  table and \<open>rf\<close> the supplied rate. The weights returned are the solver's value divided
  by its sum, and a solver that leaves no value makes the function raise.
\<close>

theorem optimizer_solves_stated_qp:
  assumes "2 \<le> length (rows returns)" and "columns returns \<noteq> []"
  shows "formulate (df_mean returns) (df_cov returns) rf
           = Inr (qp_problem (df_mean returns) (df_cov returns) rf)
       \<and> (\<forall>w. optimal (qp_problem (df_mean returns) (df_cov returns) rf) w
              \<longleftrightarrow> qp_solution (mean_vector returns) (covariance_matrix returns) rf w)
       \<and> (\<forall>w_opt. cvx (qp_problem (df_mean returns) (df_cov returns) rf) = Inr (Some w_opt)
              \<and> length w_opt = length (columns returns)
            \<longrightarrow> mean_variance_sharpe_maximization cvx returns rf
                = Inr \<lparr>index = columns returns,
                       data = map (\<lambda>x. true_divide x (sum_list w_opt)) w_opt\<rparr>)
       \<and> (cvx (qp_problem (df_mean returns) (df_cov returns) rf) = Inr None
            \<longrightarrow> mean_variance_sharpe_maximization cvx returns rf
                = Inl (Raised ''ValueError'' ''Optimization failed: no solution found.''))"
  using optimal_returns_spec[OF assms(1)] formulate_returns[OF assms]
  by (simp add: mvsm_built[OF assms] pd_Series_def w_norm_def)

subsection \<open>The example inputs\<close>

lemma example_frames_wf:
  "wf_frame frame2" "wf_frame frame_neg" "wf_frame frame_single_row"
  "wf_frame frame_one_asset"
  by (simp_all add: wf_frame_def frame2_def frame_neg_def frame_single_row_def
      frame_one_asset_def)

lemma frame_neg_mean: "mean_vector frame_neg = [- (1/50), - (1/50)]"
  by (simp add: mean_vector_def arithmetic_mean_def frame_neg_def lessThan_Suc numeral_2_eq_2)

lemma frame_neg_cov:
  "covariance_matrix frame_neg = [[1/5000, - (1/5000)], [- (1/5000), 1/5000]]"
  by (simp add: covariance_matrix_def bessel_cov_def arithmetic_mean_def frame_neg_def
      lessThan_Suc numeral_2_eq_2)

lemma frame_one_asset_mean: "mean_vector frame_one_asset = [1/50]"
  by (simp add: mean_vector_def arithmetic_mean_def frame_one_asset_def lessThan_Suc numeral_2_eq_2)

lemma frame_one_asset_cov: "covariance_matrix frame_one_asset = [[1/5000]]"
  by (simp add: covariance_matrix_def bessel_cov_def arithmetic_mean_def frame_one_asset_def
      lessThan_Suc numeral_2_eq_2)

lemma frame2_stats:
  "df_mean frame2 = [Num (1/50), Num (1/50)]"
  "df_cov frame2 = [[Num (1/5000), Num (- (1/5000))], [Num (- (1/5000)), Num (1/5000)]]"
proof -
  have T: "2 \<le> length (rows frame2)" by (simp add: frame2_def)
  then have ne: "rows frame2 \<noteq> []" by auto
  show "df_mean frame2 = [Num (1/50), Num (1/50)]"
    by (simp add: df_mean_finite[OF ne] frame2_mean)
  show "df_cov frame2 = [[Num (1/5000), Num (- (1/5000))], [Num (- (1/5000)), Num (1/5000)]]"
    by (simp add: df_cov_finite[OF T] frame2_cov)
qed

lemma feasible_two:
  "feasible (qp_problem [Num m1, Num m2] Sigm rf) v \<longleftrightarrow>
     (\<exists>x y. v = [x, y] \<and> m1 * x + m2 * y - rf = 1 \<and> 0 \<le> x \<and> 0 \<le> y)"
  by (auto simp: feasible_formulate dot_def length_Suc_conv)

lemma objective_two:
  "objective_value (qp_problem [Num m1, Num m2] [[Num a, Num b], [Num c, Num d]] rf) [x, y]
     = Some (x * (a * x + b * y) + y * (c * x + d * y))"
  by (simp add: objective_formulate quad_form_def matvec_def dot_def)

lemma optimal_twoI:
  assumes "m1 * x + m2 * y - rf = 1" and "0 \<le> x" and "0 \<le> y"
    and "\<And>u v. m1 * u + m2 * v - rf = 1 \<Longrightarrow> 0 \<le> u \<Longrightarrow> 0 \<le> v \<Longrightarrow>
           x * (a * x + b * y) + y * (c * x + d * y) \<le> u * (a * u + b * v) + v * (c * u + d * v)"
  shows "optimal (qp_problem [Num m1, Num m2] [[Num a, Num b], [Num c, Num d]] rf) [x, y]"
proof -
  let ?p = "qp_problem [Num m1, Num m2] [[Num a, Num b], [Num c, Num d]] rf"
  have f: "feasible ?p [x, y]" using assms(1-3) by (simp add: feasible_two)
  have least: "x * (a * x + b * y) + y * (c * x + d * y) \<le> c'"
    if fz: "feasible ?p z" and oz: "objective_value ?p z = Some c'" for z c'
  proof -
    from fz obtain u v where z: "z = [u, v]" and uv: "m1 * u + m2 * v - rf = 1" "0 \<le> u" "0 \<le> v"
      unfolding feasible_two by blast
    from oz have "c' = u * (a * u + b * v) + v * (c * u + d * v)"
      by (simp add: z objective_two)
    with assms(4)[OF uv] show ?thesis by simp
  qed
  show ?thesis
    unfolding optimal_def using f least objective_two[of m1 m2 a b c d rf x y] by blast
qed

lemma quad_opposed_nonneg:
  "0 \<le> s \<Longrightarrow> 0 \<le> u * (s * u + - s * v) + v * (- s * u + s * v)" for s u v :: real
proof -
  assume s: "0 \<le> s"
  have "u * (s * u + - s * v) + v * (- s * u + s * v) = s * (u - v)\<^sup>2"
    by (simp add: power2_eq_square algebra_simps)
  then show ?thesis using s by simp
qed

lemma frame2_optimum: "optimal (qp_problem (df_mean frame2) (df_cov frame2) 0) [25, 25]"
  unfolding frame2_stats
proof (rule optimal_twoI)
  fix u v :: real
  have "0 \<le> u * (1 / 5000 * u + - (1 / 5000) * v) + v * (- (1 / 5000) * u + 1 / 5000 * v)"
    by (rule quad_opposed_nonneg) simp
  then show "25 * (1 / 5000 * 25 + - (1 / 5000) * 25) + 25 * (- (1 / 5000) * 25 + 1 / 5000 * 25)
        \<le> u * (1 / 5000 * u + - (1 / 5000) * v) + v * (- (1 / 5000) * u + 1 / 5000 * v)"
    by simp
qed simp_all

theorem optimizer_solves_stated_qp_witness:
  "2 \<le> length (rows frame2)
   \<and> qp_solution (mean_vector frame2) (covariance_matrix frame2) 0 [25, 25]
   \<and> mean_variance_sharpe_maximization (const_solver [25, 25]) frame2 0
       = Inr \<lparr>index = [''A'', ''B''], data = [Num (1/2), Num (1/2)]\<rparr>"
proof -
  have T: "2 \<le> length (rows frame2)" and n: "columns frame2 \<noteq> []"
    by (simp_all add: frame2_def)
  note inst = optimizer_solves_stated_qp[OF T n, of 0 "const_solver [25, 25]"]
  have "qp_solution (mean_vector frame2) (covariance_matrix frame2) 0 [25, 25]"
    using inst frame2_optimum by blast
  moreover have "mean_variance_sharpe_maximization (const_solver [25, 25]) frame2 0
       = Inr \<lparr>index = [''A'', ''B''], data = [Num (1/2), Num (1/2)]\<rparr>"
    using inst by (simp add: const_solver_def frame2_def true_divide_def)
  ultimately show ?thesis using T by blast
qed

subsection \<open>When the program has a feasible point\<close>

lemma exact_on_sound: "exact_on cvx p \<Longrightarrow> sound_on cvx p"
  by (auto simp: exact_on_def sound_on_def split: sum.splits option.splits)

lemma list_all_update:
  "list_all P xs \<Longrightarrow> P v \<Longrightarrow> list_all P (xs[i := v])"
  by (induction xs arbitrary: i) (auto split: nat.splits)

lemma feasible_unit:
  assumes "j < length m" and "0 < m ! j" and "- 1 < rf"
  shows "feasible (qp_problem (map Num m) Sigm rf)
           ((replicate (length m) 0)[j := (1 + rf) / m ! j])"
proof -
  have "dot m ((replicate (length m) 0)[j := (1 + rf) / m ! j]) = 1 + rf"
    using assms by (simp add: dot_unit)
  moreover have "list_all (\<lambda>x. 0 \<le> x) ((replicate (length m) (0::real))[j := (1 + rf) / m ! j])"
    using assms by (intro list_all_update) (simp_all add: list_all_length)
  ultimately show ?thesis
    by (simp add: feasible_formulate comp_def list_all_finite_Num)
qed

lemma feasible_sum_pos:
  assumes "feasible (qp_problem mu Sigm rf) w" and "- 1 < rf"
  shows "0 < sum_list w"
proof -
  have "0 < dot (map real_of mu) w" and "list_all (\<lambda>x. 0 \<le> x) w"
    using assms by (simp_all add: feasible_formulate)
  then show ?thesis using sum_pos_of_dot_pos by blast
qed

lemma series_of_feasible:
  assumes "feasible (qp_problem mu Sigm rf) w" and "- 1 < rf" and "length cols = length mu"
  shows "pd_Series (w_norm w) cols
         = Inr \<lparr>index = cols, data = map Num (map (\<lambda>x. x / sum_list w) w)\<rparr>"
    and "sum_list (map (\<lambda>x. x / sum_list w) w) = 1"
    and "list_all (\<lambda>x. 0 \<le> x) (map (\<lambda>x. x / sum_list w) w)"
proof -
  have pos: "0 < sum_list w" using assms(1,2) by (rule feasible_sum_pos)
  have len: "length w = length mu" and nn: "list_all (\<lambda>x. 0 \<le> x) w"
    using assms(1) by (simp_all add: feasible_formulate)
  show "pd_Series (w_norm w) cols
         = Inr \<lparr>index = cols, data = map Num (map (\<lambda>x. x / sum_list w) w)\<rparr>"
    using pos len assms(3) by (simp add: pd_Series_def w_norm_Num comp_def)
  show "sum_list (map (\<lambda>x. x / sum_list w) w) = 1"
    using pos by (simp add: sum_list_divide)
  show "list_all (\<lambda>x. 0 \<le> x) (map (\<lambda>x. x / sum_list w) w)"
    using pos nn by (simp add: list_all_iff)
qed

lemma exact_feasible_value:
  assumes "exact_on cvx p" and "feasible p u"
  shows "\<exists>w. cvx p = Inr (Some w) \<and> optimal p w"
  using assms by (auto simp: exact_on_def split: sum.splits option.splits)

lemma optimizer_returns_weights:
  assumes ex: "exact_on cvx (qp_problem (map Num m) Sigm rf)"
    and j: "j < length m" "0 < m ! j" and rf: "- 1 < rf" and cols: "length cols = length m"
    and built: "formulate (map Num m) Sigm rf = Inr (qp_problem (map Num m) Sigm rf)"
  shows "\<exists>ws. portfolio_optimizer cvx (map Num m) Sigm rf cols
                = Inr \<lparr>index = cols, data = map Num ws\<rparr>
            \<and> length ws = length cols \<and> sum_list ws = 1 \<and> list_all (\<lambda>x. 0 \<le> x) ws"
proof -
  let ?p = "qp_problem (map Num m) Sigm rf"
  from exact_feasible_value[OF ex feasible_unit[OF j rf]]
  obtain w where w: "cvx ?p = Inr (Some w)" and opt: "optimal ?p w" by blast
  have f: "feasible ?p w" using opt by (simp add: optimal_def)
  have c: "length cols = length (map Num m)" using cols by simp
  have len: "length w = length cols" using f cols by (simp add: feasible_formulate)
  show ?thesis
    using series_of_feasible[OF f rf c] w len
    by (intro exI[of _ "map (\<lambda>x. x / sum_list w) w"])
       (simp add: portfolio_optimizer_built[OF built])
qed

subsection \<open>When the program has no feasible point\<close>

lemma dot_nonpos:
  "list_all (\<lambda>x. x \<le> 0) a \<Longrightarrow> list_all (\<lambda>x. 0 \<le> x) w \<Longrightarrow> dot a w \<le> 0"
  unfolding dot_def
proof (induction a arbitrary: w)
  case Nil
  then show ?case by simp
next
  case (Cons x a)
  show ?case
  proof (cases w)
    case Nil
    then show ?thesis by simp
  next
    case (Cons y ys)
    have "x * y \<le> 0" using Cons.prems Cons by (simp add: mult_nonpos_nonneg)
    moreover have "sum_list (map2 (*) a ys) \<le> 0" using Cons.IH[of ys] Cons.prems Cons by simp
    ultimately show ?thesis using Cons by simp
  qed
qed

lemma infeasible_nonpos_means:
  assumes "list_all (\<lambda>x. x \<le> 0) m" and "- 1 < rf"
  shows "\<not> feasible (qp_problem (map Num m) Sigm rf) w"
proof
  assume "feasible (qp_problem (map Num m) Sigm rf) w"
  then have "dot m w - rf = 1" and "list_all (\<lambda>x. 0 \<le> x) w"
    by (simp_all add: feasible_formulate comp_def)
  with dot_nonpos[OF assms(1), of w] assms(2) show False by simp
qed

lemma optimizer_no_value:
  assumes "sound_on cvx (qp_problem mu Sigm rf)" and "\<forall>w. \<not> optimal (qp_problem mu Sigm rf) w"
  shows "(\<forall>s. portfolio_optimizer cvx mu Sigm rf cols \<noteq> Inr s)
       \<and> (\<forall>r. formulate mu Sigm rf = Inr (qp_problem mu Sigm rf)
               \<and> cvx (qp_problem mu Sigm rf) = Inr r \<longrightarrow>
             portfolio_optimizer cvx mu Sigm rf cols
             = Inl (Raised ''ValueError'' ''Optimization failed: no solution found.''))"
proof (cases "formulate mu Sigm rf")
  case (Inl e)
  then show ?thesis by (simp add: portfolio_optimizer_def)
next
  case (Inr p)
  then have p: "p = qp_problem mu Sigm rf" by (rule formulate_Inr)
  show ?thesis
    using assms Inr unfolding p
    by (auto simp: sound_on_def portfolio_optimizer_def split: sum.splits option.splits)
qed

lemma mean_vector_nth:
  "j < length (columns df) \<Longrightarrow> mean_vector df ! j = arithmetic_mean df j"
  by (simp add: mean_vector_def)

lemma length_mean_vector: "length (mean_vector df) = length (columns df)"
  by (simp add: mean_vector_def)

section \<open>The claims on the weights returned\<close>

text \<open>
  Claim C2, amended. For a table with \<open>n \<ge> 2\<close> assets and \<open>T \<ge> 2\<close> observations in which
  some asset has a sample mean above \<open>rf\<close> and above zero, with \<open>rf > -1\<close>, and a solver
  that is exact on the problem built, the function returns a series indexed by the
  columns of the table, in their order, whose \<open>n\<close> entries are finite, sum to \<open>1\<close> and are
  not negative; so they sum to \<open>1\<close> within \<open>1e-6\<close> and are at least \<open>-1e-8\<close>.
\<close>

theorem returns_weight_vector:
  assumes "2 \<le> length (columns returns)" and "2 \<le> length (rows returns)"
    and "\<exists>j<length (columns returns).
           rf < arithmetic_mean returns j \<and> 0 < arithmetic_mean returns j"
    and "- 1 < rf"
    and "exact_on cvx (qp_problem (df_mean returns) (df_cov returns) rf)"
  shows "\<exists>ws. mean_variance_sharpe_maximization cvx returns rf
                = Inr \<lparr>index = columns returns, data = map Num ws\<rparr>
            \<and> length ws = length (columns returns)
            \<and> sum_list ws = 1 \<and> list_all (\<lambda>x. 0 \<le> x) ws
            \<and> \<bar>sum_list ws - 1\<bar> \<le> 1 / 10 ^ 6 \<and> list_all (\<lambda>x. - (1 / 10 ^ 8) \<le> x) ws"
proof -
  have ne: "rows returns \<noteq> []" using assms(2) by auto
  from assms(3) obtain j where j: "j < length (mean_vector returns)"
      "0 < mean_vector returns ! j"
    by (auto simp: length_mean_vector mean_vector_nth)
  have ex: "exact_on cvx (qp_problem (map Num (mean_vector returns)) (df_cov returns) rf)"
    using assms(5) by (simp add: df_mean_finite[OF ne])
  have cols: "length (columns returns) = length (mean_vector returns)"
    by (simp add: length_mean_vector)
  have n1: "columns returns \<noteq> []" using assms(1) by auto
  have built: "formulate (map Num (mean_vector returns)) (df_cov returns) rf
        = Inr (qp_problem (map Num (mean_vector returns)) (df_cov returns) rf)"
    using formulate_returns[OF assms(2) n1, of rf] by (simp add: df_mean_finite[OF ne])
  from optimizer_returns_weights[OF ex j assms(4) cols built]
  obtain ws where ws: "portfolio_optimizer cvx (map Num (mean_vector returns)) (df_cov returns) rf
        (columns returns) = Inr \<lparr>index = columns returns, data = map Num ws\<rparr>"
      "length ws = length (columns returns)" "sum_list ws = 1" "list_all (\<lambda>x. 0 \<le> x) ws"
    by blast
  have "list_all (\<lambda>x. - (1 / 10 ^ 8) \<le> x) ws"
    using ws(4) by (auto simp: list_all_iff intro: order_trans[of _ 0])
  then show ?thesis
    using ws by (intro exI[of _ ws]) (simp add: mvsm_optimizer df_mean_finite[OF ne])
qed

lemma const_solver_frame2:
  "mean_variance_sharpe_maximization (const_solver [x, y]) frame2 rf
     = pd_Series (w_norm [x, y]) [''A'', ''B'']"
proof -
  have T: "2 \<le> length (rows frame2)" and n: "columns frame2 \<noteq> []"
    by (simp_all add: frame2_def)
  show ?thesis by (simp add: mvsm_built[OF T n] const_solver_def) (simp add: frame2_def)
qed

theorem returns_weight_vector_witness:
  "2 \<le> length (columns frame2) \<and> 2 \<le> length (rows frame2)
   \<and> (0::real) < arithmetic_mean frame2 0
   \<and> exact_on (const_solver [25, 25]) (qp_problem (df_mean frame2) (df_cov frame2) 0)
   \<and> (\<exists>ws. mean_variance_sharpe_maximization (const_solver [25, 25]) frame2 0
                = Inr \<lparr>index = [''A'', ''B''], data = map Num ws\<rparr>
          \<and> sum_list ws = 1 \<and> list_all (\<lambda>x. 0 \<le> x) ws)"
proof -
  have n: "2 \<le> length (columns frame2)" and T: "2 \<le> length (rows frame2)"
    by (simp_all add: frame2_def)
  have m: "arithmetic_mean frame2 0 = 1 / 50"
    by (simp add: arithmetic_mean_def frame2_def lessThan_Suc numeral_2_eq_2)
  have j: "\<exists>j<length (columns frame2). 0 < arithmetic_mean frame2 j \<and> 0 < arithmetic_mean frame2 j"
    using m by (intro exI[of _ 0]) (simp add: frame2_def)
  have ex: "exact_on (const_solver [25, 25]) (qp_problem (df_mean frame2) (df_cov frame2) 0)"
    using frame2_optimum by (simp add: exact_on_def const_solver_def)
  have cols: "columns frame2 = [''A'', ''B'']" by (simp add: frame2_def)
  from returns_weight_vector[OF n T j _ ex] cols
  show ?thesis using n T m ex by auto
qed

theorem returns_weight_vector_counterexample:
  "2 \<le> length (columns frame_neg) \<and> 2 \<le> length (rows frame_neg)
   \<and> arithmetic_mean frame_neg 0 = - (1 / 50) \<and> - (1 / 2) < - (1 / 50 :: real)
   \<and> (\<forall>w. \<not> feasible (qp_problem (df_mean frame_neg) (df_cov frame_neg) (- (1 / 2))) w)
   \<and> exact_on no_value_solver (qp_problem (df_mean frame_neg) (df_cov frame_neg) (- (1 / 2)))
   \<and> mean_variance_sharpe_maximization no_value_solver frame_neg (- (1 / 2))
       = Inl (Raised ''ValueError'' ''Optimization failed: no solution found.'')"
proof -
  have ne: "rows frame_neg \<noteq> []" and T: "2 \<le> length (rows frame_neg)"
    and n: "columns frame_neg \<noteq> []"
    by (simp_all add: frame_neg_def)
  have m: "df_mean frame_neg = map Num [- (1 / 50), - (1 / 50)]"
    by (simp add: df_mean_finite[OF ne] frame_neg_mean)
  have inf: "\<not> feasible (qp_problem (df_mean frame_neg) (df_cov frame_neg) (- (1 / 2))) w" for w
    unfolding m by (rule infeasible_nonpos_means) simp_all
  have "arithmetic_mean frame_neg 0 = - (1 / 50)"
    by (simp add: arithmetic_mean_def frame_neg_def lessThan_Suc numeral_2_eq_2)
  then show ?thesis
    using inf T by (simp add: exact_on_def no_value_solver_def mvsm_built[OF T n])
       (simp add: frame_neg_def)
qed

text \<open>
  Claim C3, amended. Whenever every sample mean is at most \<open>rf\<close> and at most zero, with
  \<open>rf > -1\<close>, no \<open>w \<ge> 0\<close> satisfies \<open>\<mu>\<^sup>T w - rf = 1\<close>; with a solver whose values are optimal
  points, the function then returns no weight vector, and when the solver ends without
  raising, the function raises its one error, the \<^verbatim>\<open>ValueError\<close> of every outcome with no
  solution.
\<close>

theorem infeasible_raises_value_error:
  assumes "rows returns \<noteq> []"
    and "\<forall>j<length (columns returns).
           arithmetic_mean returns j \<le> rf \<and> arithmetic_mean returns j \<le> 0"
    and "- 1 < rf"
    and "sound_on cvx (qp_problem (df_mean returns) (df_cov returns) rf)"
  shows "(\<forall>w. \<not> feasible (qp_problem (df_mean returns) (df_cov returns) rf) w)
       \<and> (\<forall>s. mean_variance_sharpe_maximization cvx returns rf \<noteq> Inr s)
       \<and> (2 \<le> length (rows returns) \<and> columns returns \<noteq> [] \<longrightarrow>
            formulate (df_mean returns) (df_cov returns) rf
            = Inr (qp_problem (df_mean returns) (df_cov returns) rf))
       \<and> (\<forall>r. formulate (df_mean returns) (df_cov returns) rf
                 = Inr (qp_problem (df_mean returns) (df_cov returns) rf)
               \<and> cvx (qp_problem (df_mean returns) (df_cov returns) rf) = Inr r \<longrightarrow>
             mean_variance_sharpe_maximization cvx returns rf
             = Inl (Raised ''ValueError'' ''Optimization failed: no solution found.''))"
proof -
  have np: "list_all (\<lambda>x. x \<le> 0) (mean_vector returns)"
    using assms(2) by (simp add: list_all_length length_mean_vector mean_vector_nth)
  have inf: "\<not> feasible (qp_problem (df_mean returns) (df_cov returns) rf) w" for w
    unfolding df_mean_finite[OF assms(1)] using np assms(3) by (rule infeasible_nonpos_means)
  then have "\<forall>w. \<not> optimal (qp_problem (df_mean returns) (df_cov returns) rf) w"
    by (simp add: optimal_def)
  from optimizer_no_value[OF assms(4) this, of "columns returns"] inf
    formulate_returns[of returns rf]
  show ?thesis by (simp add: mvsm_optimizer)
qed

theorem infeasible_raises_value_error_witness:
  "rows frame_neg \<noteq> []
   \<and> mean_vector frame_neg = [- (1 / 50), - (1 / 50)]
   \<and> sound_on no_value_solver (qp_problem (df_mean frame_neg) (df_cov frame_neg) 0)
   \<and> mean_variance_sharpe_maximization no_value_solver frame_neg 0
       = Inl (Raised ''ValueError'' ''Optimization failed: no solution found.'')"
proof -
  have ne: "rows frame_neg \<noteq> []" and T: "2 \<le> length (rows frame_neg)"
    and n: "columns frame_neg \<noteq> []"
    by (simp_all add: frame_neg_def)
  have m: "\<forall>j<length (columns frame_neg).
           arithmetic_mean frame_neg j \<le> 0 \<and> arithmetic_mean frame_neg j \<le> 0"
    using frame_neg_mean
    by (simp add: mean_vector_def frame_neg_def numeral_2_eq_2 less_Suc_eq)
  have s: "sound_on no_value_solver (qp_problem (df_mean frame_neg) (df_cov frame_neg) 0)"
    by (simp add: sound_on_def no_value_solver_def)
  have c: "no_value_solver (qp_problem (df_mean frame_neg) (df_cov frame_neg) 0) = Inr None"
    by (simp add: no_value_solver_def)
  from infeasible_raises_value_error[OF ne m _ s]
  have "mean_variance_sharpe_maximization no_value_solver frame_neg 0
       = Inl (Raised ''ValueError'' ''Optimization failed: no solution found.'')"
    using T n c by simp
  then show ?thesis using ne s frame_neg_mean by simp
qed

lemma frame2_optimum_rf:
  "optimal (qp_problem (df_mean frame2) (df_cov frame2) (1 / 40)) [205 / 8, 205 / 8]"
  unfolding frame2_stats
proof (rule optimal_twoI)
  fix u v :: real
  have "0 \<le> u * (1 / 5000 * u + - (1 / 5000) * v) + v * (- (1 / 5000) * u + 1 / 5000 * v)"
    by (rule quad_opposed_nonneg) simp
  then show "205 / 8 * (1 / 5000 * (205 / 8) + - (1 / 5000) * (205 / 8))
           + 205 / 8 * (- (1 / 5000) * (205 / 8) + 1 / 5000 * (205 / 8))
        \<le> u * (1 / 5000 * u + - (1 / 5000) * v) + v * (- (1 / 5000) * u + 1 / 5000 * v)"
    by simp
qed simp_all

theorem infeasible_raises_counterexample:
  "mean_vector frame2 = [1 / 50, 1 / 50] \<and> (1 / 50 :: real) \<le> 1 / 40
   \<and> exact_on (const_solver [205 / 8, 205 / 8])
        (qp_problem (df_mean frame2) (df_cov frame2) (1 / 40))
   \<and> mean_variance_sharpe_maximization (const_solver [205 / 8, 205 / 8]) frame2 (1 / 40)
       = Inr \<lparr>index = [''A'', ''B''], data = [Num (1 / 2), Num (1 / 2)]\<rparr>"
  using frame2_optimum_rf
  by (simp add: frame2_mean exact_on_def const_solver_frame2 pd_Series_def w_norm_def
      true_divide_def const_solver_def)

section \<open>The claims on degenerate inputs\<close>

lemma sample_cov_short:
  assumes "length (rows df) < 2"
  shows "sample_cov (column df i) (column df j) = NaN"
proof (cases "rows df")
  case Nil
  then show ?thesis by (simp add: sample_cov_def column_def deviations_def true_divide_def)
next
  case (Cons r rs)
  then have "rs = []" using assms by simp
  then show ?thesis
    using Cons by (simp add: sample_cov_def column_def deviations_def true_divide_def)
qed

lemma df_cov_short:
  assumes "length (rows df) < 2"
  shows "df_cov df = replicate (length (columns df)) (replicate (length (columns df)) NaN)"
  by (simp add: df_cov_def sample_cov_short[OF assms] map_replicate_const)

lemma frame_single_row_cov: "df_cov frame_single_row = [[NaN, NaN], [NaN, NaN]]"
proof -
  have "length (rows frame_single_row) < 2" by (simp add: frame_single_row_def)
  from df_cov_short[OF this] show ?thesis
    by (simp add: frame_single_row_def numeral_2_eq_2)
qed

lemma not_symmetric_nan:
  assumes "2 \<le> n"
  shows "\<not> is_symmetric (replicate n (replicate n NaN))"
proof -
  have "0 < n" and "n \<noteq> 1" using assms by auto
  then show ?thesis
    by (auto simp: is_symmetric_def list_all_iff intro!: bexI[of _ 0])
qed

lemma formulate_short:
  assumes "length (rows returns) < 2" and "2 \<le> length (columns returns)"
  shows "formulate (df_mean returns) (df_cov returns) rf
         = Inl (Raised ''ValueError'' ''Quadratic form matrices must be symmetric/Hermitian.'')"
proof -
  have "df_mean returns \<noteq> []" using assms(2) by (auto simp: df_mean_def)
  moreover have "\<not> is_symmetric (df_cov returns)"
    using not_symmetric_nan[OF assms(2)] by (simp add: df_cov_short[OF assms(1)])
  ultimately show ?thesis
    using square_df_cov[of returns] by (simp add: formulate_unfold)
qed

text \<open>
  Claim C5, amended. For a table with fewer than two observations and at least two
  assets the function makes no check of its own: every entry of the covariance matrix is
  \<open>nan\<close>, the quadratic form refuses the matrix, and the computation fails with that
  \<^verbatim>\<open>ValueError\<close> (there is no error of insufficient data) before any solver runs; no weight
  vector is produced.
\<close>

theorem short_table_fails:
  assumes "length (rows returns) < 2" and "2 \<le> length (columns returns)"
  shows "df_cov returns
           = replicate (length (columns returns)) (replicate (length (columns returns)) NaN)
       \<and> mean_variance_sharpe_maximization cvx returns rf
         = Inl (Raised ''ValueError'' ''Quadratic form matrices must be symmetric/Hermitian.'')"
  using df_cov_short[OF assms(1)] formulate_short[OF assms]
  by (simp add: mvsm_optimizer portfolio_optimizer_def)

theorem short_table_fails_witness:
  "length (rows frame_single_row) < 2 \<and> 2 \<le> length (columns frame_single_row)
   \<and> df_cov frame_single_row = [[NaN, NaN], [NaN, NaN]]
   \<and> mean_variance_sharpe_maximization (const_solver [1, 1]) frame_single_row 0
       = Inl (Raised ''ValueError'' ''Quadratic form matrices must be symmetric/Hermitian.'')"
proof -
  have T: "length (rows frame_single_row) < 2" and n: "2 \<le> length (columns frame_single_row)"
    by (simp_all add: frame_single_row_def)
  from short_table_fails[OF T n, of "const_solver [1, 1]" 0]
  show ?thesis using T n frame_single_row_cov by simp
qed

theorem short_table_counterexample:
  "length (rows frame_single_row) = 1
   \<and> df_mean frame_single_row = [Num (3 / 100), Num (1 / 100)]
   \<and> df_cov frame_single_row = [[NaN, NaN], [NaN, NaN]]
   \<and> mean_variance_sharpe_maximization no_value_solver frame_single_row 0
       = Inl (Raised ''ValueError'' ''Quadratic form matrices must be symmetric/Hermitian.'')"
proof -
  have T: "length (rows frame_single_row) < 2" and n: "2 \<le> length (columns frame_single_row)"
    and T1: "length (rows frame_single_row) = 1"
    by (simp_all add: frame_single_row_def)
  have m: "df_mean frame_single_row = [Num (3 / 100), Num (1 / 100)]"
    by (simp add: df_mean_def series_mean_def column_def true_divide_def frame_single_row_def
        numeral_2_eq_2)
  have "mean_variance_sharpe_maximization no_value_solver frame_single_row 0
       = Inl (Raised ''ValueError'' ''Quadratic form matrices must be symmetric/Hermitian.'')"
    by (simp add: mvsm_optimizer portfolio_optimizer_def formulate_short[OF T n])
  then show ?thesis using T1 m frame_single_row_cov by simp
qed

text \<open>
  Claim C6, amended. The function has no guard on the sum of the raw solution: whenever
  the problem is built and the solver gives a value, a series is returned. If the value sums to zero the entries
  are not finite (\<open>nan\<close> for a zero entry, an infinity of the entry's sign otherwise); if
  the sum is not zero, however small, the entries are the quotients.
\<close>

theorem zero_sum_is_divided:
  assumes "formulate (df_mean returns) (df_cov returns) rf = Inr p"
    and "cvx p = Inr (Some w_opt)"
    and "length w_opt = length (columns returns)"
  shows "(sum_list w_opt = 0 \<longrightarrow>
            mean_variance_sharpe_maximization cvx returns rf
            = Inr \<lparr>index = columns returns,
                   data = map (\<lambda>x. if x = 0 then NaN else if 0 < x then PosInf else NegInf)
                            w_opt\<rparr>)
       \<and> (sum_list w_opt \<noteq> 0 \<longrightarrow>
            mean_variance_sharpe_maximization cvx returns rf
            = Inr \<lparr>index = columns returns,
                   data = map (\<lambda>x. Num (x / sum_list w_opt)) w_opt\<rparr>)"
  using assms(2,3)
  by (simp add: mvsm_optimizer portfolio_optimizer_built[OF assms(1)] pd_Series_def w_norm_def
      true_divide_def)

theorem zero_sum_is_divided_witness:
  "formulate (df_mean frame_neg) (df_cov frame_neg) (- 1)
     = Inr (qp_problem (df_mean frame_neg) (df_cov frame_neg) (- 1))
   \<and> const_solver [0, 0] (qp_problem (df_mean frame_neg) (df_cov frame_neg) (- 1))
     = Inr (Some [0, 0])
   \<and> length [0, 0 :: real] = length (columns frame_neg)
   \<and> sum_list [0, 0 :: real] = 0
   \<and> mean_variance_sharpe_maximization (const_solver [0, 0]) frame_neg (- 1)
       = Inr \<lparr>index = [''A'', ''B''], data = [NaN, NaN]\<rparr>"
proof -
  have T: "2 \<le> length (rows frame_neg)" and n: "columns frame_neg \<noteq> []"
    and cols: "columns frame_neg = [''A'', ''B'']"
    by (simp_all add: frame_neg_def)
  have b: "formulate (df_mean frame_neg) (df_cov frame_neg) (- 1)
     = Inr (qp_problem (df_mean frame_neg) (df_cov frame_neg) (- 1))"
    by (rule formulate_returns[OF T n])
  have c: "const_solver [0, 0] (qp_problem (df_mean frame_neg) (df_cov frame_neg) (- 1))
     = Inr (Some [0, 0])" by (simp add: const_solver_def)
  have l: "length [0, 0 :: real] = length (columns frame_neg)" by (simp add: cols)
  from zero_sum_is_divided[where cvx = "const_solver [0, 0]" and returns = frame_neg
      and rf = "- 1" and w_opt = "[0, 0]", OF b c l]
  show ?thesis using b c l by (simp add: cols)
qed

lemma frame2_zero_optimum:
  "optimal (qp_problem (df_mean frame2) (df_cov frame2) (- 1)) [0, 0]"
  unfolding frame2_stats
proof (rule optimal_twoI)
  fix u v :: real
  have "0 \<le> u * (1 / 5000 * u + - (1 / 5000) * v) + v * (- (1 / 5000) * u + 1 / 5000 * v)"
    by (rule quad_opposed_nonneg) simp
  then show "0 * (1 / 5000 * 0 + - (1 / 5000) * 0) + 0 * (- (1 / 5000) * 0 + 1 / 5000 * 0)
        \<le> u * (1 / 5000 * u + - (1 / 5000) * v) + v * (- (1 / 5000) * u + 1 / 5000 * v)"
    by simp
qed simp_all

theorem zero_sum_counterexample:
  "exact_on (const_solver [0, 0]) (qp_problem (df_mean frame2) (df_cov frame2) (- 1))
   \<and> sum_list [0, 0 :: real] = 0
   \<and> mean_variance_sharpe_maximization (const_solver [0, 0]) frame2 (- 1)
       = Inr \<lparr>index = [''A'', ''B''], data = [NaN, NaN]\<rparr>"
  using frame2_zero_optimum
  by (simp add: exact_on_def const_solver_frame2 pd_Series_def w_norm_def
      true_divide_def const_solver_def)

section \<open>The single-asset universe\<close>

lemma exact_infeasible_no_value:
  assumes "exact_on cvx p" and "\<forall>w. \<not> feasible p w"
  shows "cvx p = Inr None"
proof (cases "cvx p")
  case (Inl e)
  then show ?thesis using assms(1) by (simp add: exact_on_def)
next
  case (Inr r)
  show ?thesis
  proof (cases r)
    case None
    then show ?thesis using Inr by simp
  next
    case (Some w)
    then have "optimal p w" using assms(1) Inr by (simp add: exact_on_def)
    then show ?thesis using assms(2) by (simp add: optimal_def)
  qed
qed

lemma feasible_one:
  "feasible (qp_problem [Num m] Sigm rf) z \<longleftrightarrow> (\<exists>u. z = [u] \<and> m * u - rf = 1 \<and> 0 \<le> u)"
  by (auto simp: feasible_formulate dot_def length_Suc_conv)

lemma objective_one:
  "objective_value (qp_problem [Num m] [[Num s]] rf) [x] = Some (x * (s * x))"
  by (simp add: objective_formulate quad_form_def matvec_def dot_def)

lemma optimal_oneI:
  assumes "m * x - rf = 1" and "0 \<le> x" and "m \<noteq> 0"
  shows "optimal (qp_problem [Num m] [[Num s]] rf) [x]"
proof -
  let ?p = "qp_problem [Num m] [[Num s]] rf"
  have f: "feasible ?p [x]" using assms(1,2) by (simp add: feasible_one)
  have least: "x * (s * x) \<le> c'"
    if fz: "feasible ?p z" and oz: "objective_value ?p z = Some c'" for z c'
  proof -
    from fz obtain u where z: "z = [u]" and u: "m * u - rf = 1"
      unfolding feasible_one by blast
    from u assms(1) have "m * u = m * x" by linarith
    then have "u = x" using assms(3) by simp
    with oz z show ?thesis by (simp add: objective_one)
  qed
  show ?thesis
    unfolding optimal_def using f least objective_one[of m s rf x] by blast
qed

text \<open>
  Claim C8, amended. For a table with exactly one asset, at least two observations,
  \<open>rf > -1\<close> and a solver exact on the problem built: when the sample mean is above \<open>rf\<close>
  and above zero, the function returns the weight \<open>1\<close> for that asset; when the mean is at
  most \<open>rf\<close> and at most zero, it raises \<^verbatim>\<open>ValueError\<close>.
\<close>

theorem single_asset_weight:
  assumes "columns returns = [a]" and "2 \<le> length (rows returns)" and "- 1 < rf"
    and "exact_on cvx (qp_problem (df_mean returns) (df_cov returns) rf)"
  shows "(rf < arithmetic_mean returns 0 \<and> 0 < arithmetic_mean returns 0 \<longrightarrow>
            mean_variance_sharpe_maximization cvx returns rf
            = Inr \<lparr>index = [a], data = [Num 1]\<rparr>)
       \<and> (arithmetic_mean returns 0 \<le> rf \<and> arithmetic_mean returns 0 \<le> 0 \<longrightarrow>
            mean_variance_sharpe_maximization cvx returns rf
            = Inl (Raised ''ValueError'' ''Optimization failed: no solution found.''))"
proof (intro conjI impI)
  have ne: "rows returns \<noteq> []" using assms(2) by auto
  have mv: "mean_vector returns = [arithmetic_mean returns 0]"
    using assms(1) by (simp add: mean_vector_def)
  have ex: "exact_on cvx (qp_problem (map Num (mean_vector returns)) (df_cov returns) rf)"
    using assms(4) by (simp add: df_mean_finite[OF ne])
  have n1: "columns returns \<noteq> []" using assms(1) by simp
  have built: "formulate (map Num (mean_vector returns)) (df_cov returns) rf
        = Inr (qp_problem (map Num (mean_vector returns)) (df_cov returns) rf)"
    using formulate_returns[OF assms(2) n1, of rf] by (simp add: df_mean_finite[OF ne])
  {
    assume "rf < arithmetic_mean returns 0 \<and> 0 < arithmetic_mean returns 0"
    then have j: "0 < length (mean_vector returns)" "0 < mean_vector returns ! 0"
      by (simp_all add: mv)
    have cols: "length (columns returns) = length (mean_vector returns)"
      by (simp add: length_mean_vector)
    from optimizer_returns_weights[OF ex j assms(3) cols built]
    obtain ws where ws: "portfolio_optimizer cvx (map Num (mean_vector returns)) (df_cov returns)
          rf (columns returns) = Inr \<lparr>index = columns returns, data = map Num ws\<rparr>"
        "length ws = length (columns returns)" "sum_list ws = 1"
      by blast
    from ws(2,3) have "ws = [1]" using assms(1) by (auto simp: length_Suc_conv)
    with ws(1) show "mean_variance_sharpe_maximization cvx returns rf
            = Inr \<lparr>index = [a], data = [Num 1]\<rparr>"
      using assms(1) by (simp add: mvsm_optimizer df_mean_finite[OF ne])
  }
  {
    assume "arithmetic_mean returns 0 \<le> rf \<and> arithmetic_mean returns 0 \<le> 0"
    then have np: "list_all (\<lambda>x. x \<le> 0) (mean_vector returns)" by (simp add: mv)
    have "\<forall>w. \<not> feasible (qp_problem (map Num (mean_vector returns)) (df_cov returns) rf) w"
      using infeasible_nonpos_means[OF np assms(3)] by blast
    from exact_infeasible_no_value[OF ex this]
    show "mean_variance_sharpe_maximization cvx returns rf
            = Inl (Raised ''ValueError'' ''Optimization failed: no solution found.'')"
      by (simp add: mvsm_optimizer df_mean_finite[OF ne] portfolio_optimizer_built[OF built])
  }
qed

lemma frame_one_asset_stats:
  "df_mean frame_one_asset = [Num (1/50)]"
  "df_cov frame_one_asset = [[Num (1/5000)]]"
proof -
  have T: "2 \<le> length (rows frame_one_asset)" by (simp add: frame_one_asset_def)
  then have ne: "rows frame_one_asset \<noteq> []" by auto
  show "df_mean frame_one_asset = [Num (1/50)]"
    by (simp add: df_mean_finite[OF ne] frame_one_asset_mean)
  show "df_cov frame_one_asset = [[Num (1/5000)]]"
    by (simp add: df_cov_finite[OF T] frame_one_asset_cov)
qed

theorem single_asset_weight_witness:
  "columns frame_one_asset = [''A''] \<and> 2 \<le> length (rows frame_one_asset)
   \<and> exact_on (const_solver [50])
        (qp_problem (df_mean frame_one_asset) (df_cov frame_one_asset) 0)
   \<and> arithmetic_mean frame_one_asset 0 = 1 / 50
   \<and> mean_variance_sharpe_maximization (const_solver [50]) frame_one_asset 0
       = Inr \<lparr>index = [''A''], data = [Num 1]\<rparr>"
proof -
  have c: "columns frame_one_asset = [''A'']" and T: "2 \<le> length (rows frame_one_asset)"
    by (simp_all add: frame_one_asset_def)
  have "optimal (qp_problem (df_mean frame_one_asset) (df_cov frame_one_asset) 0) [50]"
    unfolding frame_one_asset_stats by (rule optimal_oneI) simp_all
  then have ex: "exact_on (const_solver [50])
        (qp_problem (df_mean frame_one_asset) (df_cov frame_one_asset) 0)"
    by (simp add: exact_on_def const_solver_def)
  have m: "arithmetic_mean frame_one_asset 0 = 1 / 50"
    by (simp add: arithmetic_mean_def frame_one_asset_def lessThan_Suc numeral_2_eq_2)
  from single_asset_weight[OF c T _ ex]
  show ?thesis using c T ex m by simp
qed

theorem single_asset_counterexample:
  "columns frame_one_asset = [''A''] \<and> 2 \<le> length (rows frame_one_asset)
   \<and> arithmetic_mean frame_one_asset 0 = 1 / 50 \<and> (1 / 50 :: real) \<le> 1 / 40
   \<and> exact_on (const_solver [205 / 4])
        (qp_problem (df_mean frame_one_asset) (df_cov frame_one_asset) (1 / 40))
   \<and> mean_variance_sharpe_maximization (const_solver [205 / 4]) frame_one_asset (1 / 40)
       = Inr \<lparr>index = [''A''], data = [Num 1]\<rparr>"
proof -
  have "optimal (qp_problem (df_mean frame_one_asset) (df_cov frame_one_asset) (1 / 40)) [205 / 4]"
    unfolding frame_one_asset_stats by (rule optimal_oneI) simp_all
  then have ex: "exact_on (const_solver [205 / 4])
        (qp_problem (df_mean frame_one_asset) (df_cov frame_one_asset) (1 / 40))"
    by (simp add: exact_on_def const_solver_def)
  have m: "arithmetic_mean frame_one_asset 0 = 1 / 50"
    by (simp add: arithmetic_mean_def frame_one_asset_def lessThan_Suc numeral_2_eq_2)
  have T: "2 \<le> length (rows frame_one_asset)" and n: "columns frame_one_asset \<noteq> []"
    by (simp_all add: frame_one_asset_def)
  have "mean_variance_sharpe_maximization (const_solver [205 / 4]) frame_one_asset (1 / 40)
       = Inr \<lparr>index = [''A''], data = [Num 1]\<rparr>"
    by (simp add: mvsm_built[OF T n] const_solver_def pd_Series_def w_norm_def true_divide_def)
       (simp add: frame_one_asset_def)
  then show ?thesis using ex m by (simp add: frame_one_asset_def)
qed

section \<open>Invariance under scaling\<close>

subsection \<open>Scaling the covariance matrix\<close>







subsection \<open>Changing the risk-free rate\<close>







subsection \<open>The two invariances\<close>















end
